theory Spec2Isabelle
  imports Main
begin

section \<open>Python values and exceptions\<close>

text \<open>
  The values that travel through the dictionaries of the adapter (\<open>Dict[str, Any]\<close>):
  a dictionary nested inside a value keeps its entries in an association list.
\<close>

datatype pyval =
    PyNone
  | PyBool bool
  | PyInt int
  | PyStr string
  | PyDict "(string \<times> pyval) list"

text \<open>The exceptions the modelled code raises, each with its message.\<close>

datatype py_error =
    ValueError string
  | KeyError string
  | TypeError string
  | ValidationError string

section \<open>The datetime partitioner\<close>

text \<open>
  \<open>class PartitionerConvertedDateTime(_PartitionerOneColumnOneParam)\<close>: two required
  string fields and \<open>method_name\<close>, a field of a one-valued \<open>Literal\<close> type with that
  value as its default.
\<close>

record PartitionerConvertedDateTime =
  date_format_string :: string
  column_name :: string
  method_name :: string

definition method_name_literal :: string where
  "method_name_literal = ''partition_on_converted_datetime''"

text \<open>
  Construction. The caller may leave \<open>method_name\<close> out (\<open>None\<close>: the default is taken)
  or pass a string, which the \<open>Literal\<close> annotation admits only when it is the one
  literal value.
\<close>

definition PartitionerConvertedDateTime_init ::
  "string \<Rightarrow> string \<Rightarrow> string option \<Rightarrow> py_error + PartitionerConvertedDateTime" where
  "PartitionerConvertedDateTime_init dfs col mn =
     (case mn of
        None \<Rightarrow>
          Inr \<lparr>date_format_string = dfs, column_name = col,
               method_name = method_name_literal\<rparr>
      | Some m \<Rightarrow>
          if m = method_name_literal
          then Inr \<lparr>date_format_string = dfs, column_name = col, method_name = m\<rparr>
          else Inl (ValidationError ''method_name: unexpected value''))"

text \<open>
  The methods take \<open>self\<close> and return their result together with \<open>self\<close> after the
  call. None of the three bodies assigns to \<open>self\<close>, so the object comes back as it
  went in; an exception is the \<open>Inl\<close> branch of the result.
\<close>

definition param_names ::
  "PartitionerConvertedDateTime \<Rightarrow> string list \<times> PartitionerConvertedDateTime" where
  "param_names self = ([''datetime''], self)"

definition partitioner_method_kwargs ::
  "PartitionerConvertedDateTime \<Rightarrow> (string \<rightharpoonup> pyval) \<times> PartitionerConvertedDateTime" where
  "partitioner_method_kwargs self =
     ([''column_name'' \<mapsto> PyStr (column_name self),
       ''date_format_string'' \<mapsto> PyStr (date_format_string self)],
      self)"

text \<open>The message of the \<open>ValueError\<close>; it opens with a quote character.\<close>

definition datetime_missing_message :: string where
  "datetime_missing_message =
     CHR 0x27 # ''datetime' must be specified in the batch request options to create a batch identifier''"

text \<open>
  \<open>"datetime" not in options\<close> is the test that the dictionary has no such key,
  whatever the value stored under it (also \<open>None\<close>, here \<open>PyNone\<close>).
\<close>

definition batch_request_options_to_batch_spec_kwarg_identifiers ::
  "PartitionerConvertedDateTime \<Rightarrow> (string \<rightharpoonup> pyval) \<Rightarrow>
     (py_error + (string \<rightharpoonup> pyval)) \<times> PartitionerConvertedDateTime" where
  "batch_request_options_to_batch_spec_kwarg_identifiers self options =
     (case options ''datetime'' of
        None \<Rightarrow>
          (Inl (ValueError datetime_missing_message), self)
      | Some v \<Rightarrow> (Inr [column_name self \<mapsto> v], self))"

section \<open>Connection strings\<close>

text \<open>
  \<open>class SqliteDsn(pydantic.AnyUrl)\<close> sets two class attributes and nothing else.
\<close>

definition SqliteDsn_allowed_schemes :: "string set" where
  "SqliteDsn_allowed_schemes =
     {''sqlite'', ''sqlite+pysqlite'', ''sqlite+aiosqlite'', ''sqlite+pysqlcipher''}"

definition SqliteDsn_host_required :: bool where
  "SqliteDsn_host_required = False"

text \<open>The parts of a URL the two attributes speak about, and what is left of the string.\<close>

record url_parts =
  url_scheme :: "string option"
  url_host :: "string option"
  url_rest :: string

datatype url_error = UrlSchemeError | UrlSchemePermittedError | UrlHostError

text \<open>
  Modelled from the spec: the URL validation that \<open>SqliteDsn\<close> inherits from
  \<open>pydantic.AnyUrl\<close>, which is not among the sources. The spec calls it a URL-scheme
  validator restricting acceptable connection-string prefixes to a fixed set. The prefix
  is the text before the first \<open>://\<close>. \<open>split_scheme\<close> looks for that first
  \<open>://\<close>, with the characters already passed in \<open>acc\<close>, newest first, and returns
  what stands before it and what stands after.
\<close>

fun split_scheme :: "string \<Rightarrow> string \<Rightarrow> (string \<times> string) option" where
  "split_scheme acc [] = None"
| "split_scheme acc (c # cs) =
     (if take 3 (c # cs) = ''://'' then Some (rev acc, drop 3 (c # cs))
      else split_scheme (c # acc) cs)"

text \<open>
  Modelled from the spec: the split of a connection string into the prefix before
  \<open>://\<close> (its scheme), the host and the rest, standing for the URL pattern of
  \<open>pydantic.AnyUrl\<close>. A string without \<open>://\<close> has no scheme.
\<close>

definition parse_url :: "string \<Rightarrow> url_parts" where
  "parse_url s =
     (case split_scheme [] s of
        None \<Rightarrow> \<lparr>url_scheme = None, url_host = None, url_rest = s\<rparr>
      | Some (sch, rest) \<Rightarrow>
          (let h = takeWhile (\<lambda>c. c \<noteq> CHR ''/'') rest
           in \<lparr>url_scheme = Some sch,
               url_host = (if h = [] then None else Some h),
               url_rest = dropWhile (\<lambda>c. c \<noteq> CHR ''/'') rest\<rparr>))"

text \<open>
  Modelled from the spec: the checks of \<open>pydantic.AnyUrl\<close> that the two class
  attributes steer. A URL with no scheme is refused; with a non-empty \<open>allowed_schemes\<close>
  a scheme outside it is refused; with \<open>host_required\<close> a URL without host is refused.
\<close>

definition AnyUrl_validate :: "string set \<Rightarrow> bool \<Rightarrow> string \<Rightarrow> url_error + url_parts" where
  "AnyUrl_validate allowed_schemes host_required s =
     (let parts = parse_url s in
      case url_scheme parts of
        None \<Rightarrow> Inl UrlSchemeError
      | Some sch \<Rightarrow>
          if allowed_schemes \<noteq> {} \<and> sch \<notin> allowed_schemes then Inl UrlSchemePermittedError
          else if url_host parts = None \<and> host_required then Inl UrlHostError
          else Inr parts)"

definition SqliteDsn_validate :: "string \<Rightarrow> url_error + url_parts" where
  "SqliteDsn_validate = AnyUrl_validate SqliteDsn_allowed_schemes SqliteDsn_host_required"

text \<open>
  \<open>connection_string: Union[ConfigStr, SqliteDsn]\<close>. A value of the field is of one of
  the two member types. Validation tries the members in the order of the annotation and
  keeps the first that accepts. \<open>ConfigStr\<close> (a string with configuration placeholders,
  substituted before the engine is created) is imported from a module that is not among
  the sources, so its validator is the parameter \<open>config_str_ok\<close>.
\<close>

datatype connection_string = ConfigStr string | SqliteDsn url_parts

definition validate_connection_string ::
  "(string \<Rightarrow> bool) \<Rightarrow> string \<Rightarrow> py_error + connection_string" where
  "validate_connection_string config_str_ok s =
     (if config_str_ok s then Inr (ConfigStr s)
      else case SqliteDsn_validate s of
             Inr u \<Rightarrow> Inr (SqliteDsn u)
           | Inl e \<Rightarrow> Inl (ValidationError ''connection_string''))"

section \<open>The SQLite assets\<close>

text \<open>
  The keys of an asset's partitioner implementation map are partitioner classes of the
  core, its values the SQL partitioner classes that implement them. The module names one
  of each; the others are told apart by their names.
\<close>

datatype partitioner_type = PartitionerConvertedDatetime | OtherPartitioner string

datatype sql_partitioner = SqlitePartitionerConvertedDateTime | OtherSqlPartitioner string

text \<open>The instance state of an asset: its validated fields and the private map.\<close>

record sql_asset =
  asset_fields :: "string \<rightharpoonup> pyval"
  partitioner_implementation_map :: "partitioner_type \<rightharpoonup> sql_partitioner"

text \<open>The asset classes: the two generic ones and the two of this module.\<close>

datatype asset_class = SqlTableAsset | SqlQueryAsset | SqliteTableAsset | SqliteQueryAsset

definition SqliteTableAsset_type :: string where
  "SqliteTableAsset_type = ''table''"

definition SqliteQueryAsset_type :: string where
  "SqliteQueryAsset_type = ''query''"

text \<open>
  \<open>__init__(self, **kwargs)\<close> of the two asset classes. \<open>super().__init__(**kwargs)\<close> is
  the constructor of the generic SQL asset, which is not among the sources: it is the
  parameter \<open>super_init\<close>, given the literal of the class's \<open>type\<close> field and the
  keyword arguments, and it either raises or returns the state it has set up. The body
  then stores one entry in the map.
\<close>

definition SqliteTableAsset_init ::
  "(string \<Rightarrow> (string \<rightharpoonup> pyval) \<Rightarrow> py_error + sql_asset) \<Rightarrow> (string \<rightharpoonup> pyval) \<Rightarrow>
     py_error + sql_asset" where
  "SqliteTableAsset_init super_init kwargs =
     (case super_init SqliteTableAsset_type kwargs of
        Inl e \<Rightarrow> Inl e
      | Inr self \<Rightarrow>
          Inr (self\<lparr>partitioner_implementation_map :=
                 (partitioner_implementation_map self)
                   (PartitionerConvertedDatetime \<mapsto> SqlitePartitionerConvertedDateTime)\<rparr>))"

definition SqliteQueryAsset_init ::
  "(string \<Rightarrow> (string \<rightharpoonup> pyval) \<Rightarrow> py_error + sql_asset) \<Rightarrow> (string \<rightharpoonup> pyval) \<Rightarrow>
     py_error + sql_asset" where
  "SqliteQueryAsset_init super_init kwargs =
     (case super_init SqliteQueryAsset_type kwargs of
        Inl e \<Rightarrow> Inl e
      | Inr self \<Rightarrow>
          Inr (self\<lparr>partitioner_implementation_map :=
                 (partitioner_implementation_map self)
                   (PartitionerConvertedDatetime \<mapsto> SqlitePartitionerConvertedDateTime)\<rparr>))"

text \<open>
  Calling a class, \<open>cls(**kwargs)\<close>: the new object is of that class and has the state
  its constructor leaves. The two generic classes run the generic constructor alone, with
  the \<open>type\<close> literal that the subclass of this module declares again.
\<close>

definition instantiate ::
  "(string \<Rightarrow> (string \<rightharpoonup> pyval) \<Rightarrow> py_error + sql_asset) \<Rightarrow> asset_class \<Rightarrow>
     (string \<rightharpoonup> pyval) \<Rightarrow> py_error + asset_class \<times> sql_asset" where
  "instantiate super_init cls kwargs =
     (case (case cls of
              SqliteTableAsset \<Rightarrow> SqliteTableAsset_init super_init kwargs
            | SqliteQueryAsset \<Rightarrow> SqliteQueryAsset_init super_init kwargs
            | SqlTableAsset \<Rightarrow> super_init ''table'' kwargs
            | SqlQueryAsset \<Rightarrow> super_init ''query'' kwargs) of
        Inl e \<Rightarrow> Inl e
      | Inr self \<Rightarrow> Inr (cls, self))"

section \<open>The SQLite datasource\<close>

text \<open>The pool classes of SQLAlchemy; the module names \<open>StaticPool\<close>.\<close>

datatype pool_class = StaticPool | QueuePool | NullPool | SingletonThreadPool

text \<open>
  The class attribute \<open>_poolclass\<close>: \<open>sa.pool.StaticPool\<close> if \<open>sa\<close> is there
  (\<open>sa_installed\<close>), \<open>None\<close> otherwise.
\<close>

definition SqliteDatasource_poolclass :: "bool \<Rightarrow> pool_class option" where
  "SqliteDatasource_poolclass sa_installed = (if sa_installed then Some StaticPool else None)"

definition SqliteDatasource_asset_types :: "asset_class list" where
  "SqliteDatasource_asset_types = [SqliteTableAsset, SqliteQueryAsset]"

definition SqliteDatasource_type :: string where
  "SqliteDatasource_type = ''sqlite''"

text \<open>The private attributes \<open>_TableAsset\<close> and \<open>_QueryAsset\<close>, with their defaults.\<close>

definition SqliteDatasource_TableAsset :: asset_class where
  "SqliteDatasource_TableAsset = SqliteTableAsset"

definition SqliteDatasource_QueryAsset :: asset_class where
  "SqliteDatasource_QueryAsset = SqliteQueryAsset"

record SqliteDatasource =
  ds_name :: string
  ds_connection_string :: connection_string
  ds_create_temp_table :: bool
  ds_assets :: "(asset_class \<times> sql_asset) list"

text \<open>What \<open>sa.create_engine\<close> is called with.\<close>

record create_engine_call =
  ce_url :: pyval
  ce_poolclass :: "pool_class option"
  ce_kwargs :: "(string \<times> pyval) list"

text \<open>
  \<open>_create_engine\<close> up to the call of \<open>sa.create_engine\<close>. \<open>self.dict(...)\<close> (which
  applies the config substitutions) and \<open>_check_config_substitutions_needed\<close> are not
  among the sources: they are the parameters \<open>model_dict_of\<close> and \<open>check_config\<close>,
  either of which may raise. \<open>model_dict.pop("connection_string")\<close> raises
  \<open>KeyError\<close> on a dictionary without the key; \<open>model_dict.pop("kwargs", {})\<close> does
  not. The call \<open>f(url, poolclass=..., **kwargs)\<close> raises \<open>TypeError\<close> when
  \<open>kwargs\<close> is no dictionary, or has the key \<open>poolclass\<close> itself.
\<close>

definition create_engine_arguments ::
  "bool \<Rightarrow> (SqliteDatasource \<Rightarrow> py_error + (string \<rightharpoonup> pyval)) \<Rightarrow>
     (SqliteDatasource \<Rightarrow> (string \<rightharpoonup> pyval) \<Rightarrow> py_error option) \<Rightarrow>
     SqliteDatasource \<Rightarrow> py_error + create_engine_call" where
  "create_engine_arguments sa_installed model_dict_of check_config self =
     (case model_dict_of self of
        Inl e \<Rightarrow> Inl e
      | Inr model_dict \<Rightarrow>
          (case check_config self model_dict of
             Some e \<Rightarrow> Inl e
           | None \<Rightarrow>
               (case model_dict ''connection_string'' of
                  None \<Rightarrow> Inl (KeyError ''connection_string'')
                | Some connection_string \<Rightarrow>
                    (case (case (model_dict(''connection_string'' := None)) ''kwargs'' of
                             None \<Rightarrow> PyDict []
                           | Some k \<Rightarrow> k) of
                       PyDict kwargs \<Rightarrow>
                         if ''poolclass'' \<in> fst ` set kwargs
                         then Inl (TypeError ''got multiple values for keyword argument poolclass'')
                         else Inr \<lparr>ce_url = connection_string,
                                   ce_poolclass = SqliteDatasource_poolclass sa_installed,
                                   ce_kwargs = kwargs\<rparr>
                     | _ \<Rightarrow> Inl (TypeError ''argument after ** must be a mapping'')))))"

text \<open>
  \<open>_create_engine\<close> itself: the engine is what \<open>sa.create_engine\<close> (the parameter
  \<open>sa_create_engine\<close>) returns for those arguments.
\<close>

definition create_engine ::
  "bool \<Rightarrow> (SqliteDatasource \<Rightarrow> py_error + (string \<rightharpoonup> pyval)) \<Rightarrow>
     (SqliteDatasource \<Rightarrow> (string \<rightharpoonup> pyval) \<Rightarrow> py_error option) \<Rightarrow>
     (create_engine_call \<Rightarrow> py_error + 'engine) \<Rightarrow>
     SqliteDatasource \<Rightarrow> py_error + 'engine" where
  "create_engine sa_installed model_dict_of check_config sa_create_engine self =
     (case create_engine_arguments sa_installed model_dict_of check_config self of
        Inl e \<Rightarrow> Inl e
      | Inr call \<Rightarrow> sa_create_engine call)"

text \<open>\<open>typing.cast\<close> returns its second argument as it is.\<close>

definition typing_cast :: "asset_class \<Rightarrow> 'a \<Rightarrow> 'a" where
  "typing_cast typ val = val"

definition opt_str :: "string option \<Rightarrow> pyval" where
  "opt_str x = (case x of None \<Rightarrow> PyNone | Some s \<Rightarrow> PyStr s)"

definition opt_val :: "pyval option \<Rightarrow> pyval" where
  "opt_val x = (case x of None \<Rightarrow> PyNone | Some v \<Rightarrow> v)"

text \<open>
  Modelled from the spec: \<open>SQLDatasource.add_table_asset\<close>, the first of the two
  asset-creation methods of the generic SQL datasource whose return types the subclass
  narrows; its module is not among the sources. It builds the asset by calling the
  datasource's asset class \<open>_TableAsset\<close> with the arguments, appends it to the
  datasource's assets and returns it with the datasource.
\<close>

definition SQLDatasource_add_table_asset ::
  "(string \<Rightarrow> (string \<rightharpoonup> pyval) \<Rightarrow> py_error + sql_asset) \<Rightarrow> asset_class \<Rightarrow>
     SqliteDatasource \<Rightarrow> string \<Rightarrow> string \<Rightarrow> string option \<Rightarrow> pyval option \<Rightarrow> pyval option \<Rightarrow>
     py_error + (asset_class \<times> sql_asset) \<times> SqliteDatasource" where
  "SQLDatasource_add_table_asset super_init table_asset self name table_name schema_name
       order_by batch_metadata =
     (case instantiate super_init table_asset
             [''name'' \<mapsto> PyStr name, ''table_name'' \<mapsto> PyStr table_name,
              ''schema_name'' \<mapsto> opt_str schema_name, ''order_by'' \<mapsto> opt_val order_by,
              ''batch_metadata'' \<mapsto> opt_val batch_metadata] of
        Inl e \<Rightarrow> Inl e
      | Inr asset \<Rightarrow> Inr (asset, self\<lparr>ds_assets := ds_assets self @ [asset]\<rparr>))"

text \<open>
  Modelled from the spec: \<open>SQLDatasource.add_query_asset\<close>, the second of the two
  asset-creation methods, built like the first on the datasource's \<open>_QueryAsset\<close>.
\<close>

definition SQLDatasource_add_query_asset ::
  "(string \<Rightarrow> (string \<rightharpoonup> pyval) \<Rightarrow> py_error + sql_asset) \<Rightarrow> asset_class \<Rightarrow>
     SqliteDatasource \<Rightarrow> string \<Rightarrow> string \<Rightarrow> pyval option \<Rightarrow> pyval option \<Rightarrow>
     py_error + (asset_class \<times> sql_asset) \<times> SqliteDatasource" where
  "SQLDatasource_add_query_asset super_init query_asset self name query order_by
       batch_metadata =
     (case instantiate super_init query_asset
             [''name'' \<mapsto> PyStr name, ''query'' \<mapsto> PyStr query,
              ''order_by'' \<mapsto> opt_val order_by,
              ''batch_metadata'' \<mapsto> opt_val batch_metadata] of
        Inl e \<Rightarrow> Inl e
      | Inr asset \<Rightarrow> Inr (asset, self\<lparr>ds_assets := ds_assets self @ [asset]\<rparr>))"

text \<open>
  The two overrides: \<open>cast(SqliteTableAsset, super().add_table_asset(...))\<close> and its
  sibling, with every argument handed on by name.
\<close>

definition add_table_asset ::
  "(string \<Rightarrow> (string \<rightharpoonup> pyval) \<Rightarrow> py_error + sql_asset) \<Rightarrow>
     SqliteDatasource \<Rightarrow> string \<Rightarrow> string \<Rightarrow> string option \<Rightarrow> pyval option \<Rightarrow> pyval option \<Rightarrow>
     py_error + (asset_class \<times> sql_asset) \<times> SqliteDatasource" where
  "add_table_asset super_init self name table_name schema_name order_by batch_metadata =
     typing_cast SqliteTableAsset
       (SQLDatasource_add_table_asset super_init SqliteDatasource_TableAsset self
          name table_name schema_name order_by batch_metadata)"

definition add_query_asset ::
  "(string \<Rightarrow> (string \<rightharpoonup> pyval) \<Rightarrow> py_error + sql_asset) \<Rightarrow>
     SqliteDatasource \<Rightarrow> string \<Rightarrow> string \<Rightarrow> pyval option \<Rightarrow> pyval option \<Rightarrow>
     py_error + (asset_class \<times> sql_asset) \<times> SqliteDatasource" where
  "add_query_asset super_init self name query order_by batch_metadata =
     typing_cast SqliteQueryAsset
       (SQLDatasource_add_query_asset super_init SqliteDatasource_QueryAsset self
          name query order_by batch_metadata)"

section \<open>The contract test of the datasource endpoint\<close>

text \<open>The bodies \<open>pact\<close> matches a response against: dictionaries and two matchers.\<close>

datatype pact_body =
    PactDict "(string \<times> pact_body) list"
  | Like pact_body
  | FormatUuid

text \<open>
  The fields of a \<open>ContractInteraction\<close> that the test sets; the field \<open>method\<close>
  is \<open>http_method\<close> here.
\<close>

record ContractInteraction =
  http_method :: string
  upon_receiving :: string
  given :: string
  response_status :: int
  response_body :: pact_body

definition DATASOURCE_MIN_RESPONSE_BODY :: pact_body where
  "DATASOURCE_MIN_RESPONSE_BODY =
     PactDict [(''data'', Like (PactDict [(''id'', FormatUuid)]))]"

text \<open>The argument list of \<open>pytest.mark.parametrize("contract_interaction", [...])\<close>.\<close>

definition contract_interaction_params :: "ContractInteraction list" where
  "contract_interaction_params =
     [\<lparr>http_method = ''PUT'',
       upon_receiving = ''a request to add a Data Source'',
       given = ''the Data Source does not exist'',
       response_status = 200,
       response_body = DATASOURCE_MIN_RESPONSE_BODY\<rparr>]"

text \<open>\<open>pathlib.Path(*segments)\<close>, kept as the segments it is built from.\<close>

datatype path = Path "string list"

text \<open>
  The test body. \<open>run_pact_test\<close> and \<open>existing_organization_id\<close> are fixtures;
  \<open>uuid4\<close> is the text of the UUID that \<open>uuid.uuid4()\<close> draws in this run.
\<close>

definition test_datasource ::
  "ContractInteraction \<Rightarrow> (path \<Rightarrow> ContractInteraction \<Rightarrow> 'r) \<Rightarrow> string \<Rightarrow> string \<Rightarrow> 'r" where
  "test_datasource contract_interaction run_pact_test existing_organization_id uuid4 =
     (let path = Path [''/'', ''organizations'', existing_organization_id,
                       ''datasources'', uuid4]
      in run_pact_test path contract_interaction)"

text \<open>
  The parametrised test: one run of the body for each entry of the list, the \<open>i\<close>-th run
  with the \<open>i\<close>-th UUID drawn.
\<close>

definition test_datasource_runs ::
  "(path \<Rightarrow> ContractInteraction \<Rightarrow> 'r) \<Rightarrow> string \<Rightarrow> (nat \<Rightarrow> string) \<Rightarrow> 'r list" where
  "test_datasource_runs run_pact_test existing_organization_id uuid4 =
     map (\<lambda>(i, contract_interaction).
            test_datasource contract_interaction run_pact_test existing_organization_id (uuid4 i))
         (enumerate 0 contract_interaction_params)"

section \<open>Properties of the datetime partitioner\<close>

text \<open>
  Claim C1. For every partitioner and every batch-request options dictionary that has
  the key \<open>datetime\<close>, the method returns the one-entry dictionary that binds the
  partitioner's \<open>column_name\<close> to \<open>options["datetime"]\<close>.
\<close>

theorem batch_spec_identifiers_of_datetime:
  assumes "options ''datetime'' = Some v"
  shows "batch_request_options_to_batch_spec_kwarg_identifiers self options
           = (Inr [column_name self \<mapsto> v], self)"
  using assms by (simp add: batch_request_options_to_batch_spec_kwarg_identifiers_def)

theorem batch_spec_identifiers_of_datetime_witness:
  "[''datetime'' \<mapsto> PyStr ''2019-02-01''] ''datetime'' = Some (PyStr ''2019-02-01'') \<and>
   batch_request_options_to_batch_spec_kwarg_identifiers
       \<lparr>date_format_string = ''%Y-%m-%d'', column_name = ''pickup_datetime'',
        method_name = ''partition_on_converted_datetime''\<rparr>
       [''datetime'' \<mapsto> PyStr ''2019-02-01'']
     = (Inr [''pickup_datetime'' \<mapsto> PyStr ''2019-02-01''],
        \<lparr>date_format_string = ''%Y-%m-%d'', column_name = ''pickup_datetime'',
         method_name = ''partition_on_converted_datetime''\<rparr>)"
proof -
  have present:
    "[''datetime'' \<mapsto> PyStr ''2019-02-01''] ''datetime'' = Some (PyStr ''2019-02-01'')"
    by simp
  from batch_spec_identifiers_of_datetime
      [where options = "[''datetime'' \<mapsto> PyStr ''2019-02-01'']"
         and v = "PyStr ''2019-02-01''"
         and self = "\<lparr>date_format_string = ''%Y-%m-%d'', column_name = ''pickup_datetime'',
                      method_name = ''partition_on_converted_datetime''\<rparr>"]
  show ?thesis using present by simp
qed

text \<open>
  Claim C2. For every partitioner, \<open>partitioner_method_kwargs\<close> returns a dictionary
  whose keys are exactly \<open>column_name\<close> and \<open>date_format_string\<close>, bound to the
  fields of those names.
\<close>

theorem partitioner_method_kwargs_two_keys:
  "dom (fst (partitioner_method_kwargs self)) = {''column_name'', ''date_format_string''} \<and>
   fst (partitioner_method_kwargs self) ''column_name'' = Some (PyStr (column_name self)) \<and>
   fst (partitioner_method_kwargs self) ''date_format_string''
     = Some (PyStr (date_format_string self))"
  by (auto simp: partitioner_method_kwargs_def)

text \<open>
  Claim C8. The method raises \<open>ValueError\<close> exactly when the key \<open>datetime\<close> is
  absent from the options, it raises nothing else, and the partitioner (all three
  fields) is the same after the call, in the error case as in the other.
\<close>

theorem value_error_iff_datetime_absent:
  "(\<exists>msg. fst (batch_request_options_to_batch_spec_kwarg_identifiers self options)
            = Inl (ValueError msg))
     = (''datetime'' \<notin> dom options) \<and>
   isl (fst (batch_request_options_to_batch_spec_kwarg_identifiers self options))
     = (''datetime'' \<notin> dom options) \<and>
   snd (batch_request_options_to_batch_spec_kwarg_identifiers self options) = self"
  by (cases "options ''datetime''")
     (auto simp: batch_request_options_to_batch_spec_kwarg_identifiers_def)

text \<open>
  Claim C9. However a partitioner was constructed (the default \<open>method_name\<close> or one
  passed in), \<open>param_names\<close> is the list \<open>["datetime"]\<close> and \<open>method_name\<close> is
  \<open>partition_on_converted_datetime\<close>; both still hold of the object each of the three
  methods leaves behind.
\<close>

theorem param_names_and_method_name_fixed:
  assumes "PartitionerConvertedDateTime_init dfs col mn = Inr p"
  shows "fst (param_names p) = [''datetime''] \<and>
         method_name p = ''partition_on_converted_datetime'' \<and>
         (let after = [snd (param_names p), snd (partitioner_method_kwargs p),
                       snd (batch_request_options_to_batch_spec_kwarg_identifiers p options)]
          in list_all (\<lambda>q. fst (param_names q) = [''datetime''] \<and>
                            method_name q = ''partition_on_converted_datetime'') after)"
proof -
  have name: "method_name p = ''partition_on_converted_datetime''"
    using assms
    by (auto simp: PartitionerConvertedDateTime_init_def method_name_literal_def
             split: option.splits if_splits)
  have same: "snd (batch_request_options_to_batch_spec_kwarg_identifiers p options) = p"
    by (cases "options ''datetime''")
       (simp_all add: batch_request_options_to_batch_spec_kwarg_identifiers_def)
  show ?thesis
    using name same by (simp add: param_names_def partitioner_method_kwargs_def)
qed

theorem param_names_and_method_name_fixed_witness:
  "PartitionerConvertedDateTime_init ''%Y-%m-%d'' ''pickup_datetime'' None
     = Inr \<lparr>date_format_string = ''%Y-%m-%d'', column_name = ''pickup_datetime'',
            method_name = ''partition_on_converted_datetime''\<rparr> \<and>
   fst (param_names \<lparr>date_format_string = ''%Y-%m-%d'', column_name = ''pickup_datetime'',
            method_name = ''partition_on_converted_datetime''\<rparr>) = [''datetime''] \<and>
   method_name (snd (batch_request_options_to_batch_spec_kwarg_identifiers
       \<lparr>date_format_string = ''%Y-%m-%d'', column_name = ''pickup_datetime'',
        method_name = ''partition_on_converted_datetime''\<rparr> Map.empty))
     = ''partition_on_converted_datetime''"
proof -
  have made:
    "PartitionerConvertedDateTime_init ''%Y-%m-%d'' ''pickup_datetime'' None
       = Inr \<lparr>date_format_string = ''%Y-%m-%d'', column_name = ''pickup_datetime'',
              method_name = ''partition_on_converted_datetime''\<rparr>"
    by (simp add: PartitionerConvertedDateTime_init_def method_name_literal_def)
  from param_names_and_method_name_fixed [OF made, where options = Map.empty]
  show ?thesis using made by simp
qed

section \<open>Properties of the connection string\<close>

lemma SqliteDsn_validate_accepts_iff:
  "SqliteDsn_validate s = Inr u \<longleftrightarrow>
     u = parse_url s \<and> url_scheme (parse_url s) \<in> Some ` SqliteDsn_allowed_schemes"
  by (auto simp: SqliteDsn_validate_def AnyUrl_validate_def SqliteDsn_host_required_def
                 SqliteDsn_allowed_schemes_def Let_def
           split: option.splits)

text \<open>
  Claim C3, as stated, fails on the field: a string that \<open>ConfigStr\<close> accepts passes
  the validation of \<open>connection_string\<close> whatever its scheme. Here the string has the
  scheme \<open>postgresql\<close> and a placeholder \<open>${DB_USER}\<close>, and the validator standing
  for \<open>ConfigStr\<close> accepts the strings that hold a \<open>$\<close>.
\<close>

theorem connection_string_other_scheme_accepted:
  "url_scheme (parse_url ''postgresql://${DB_USER}@localhost/db'') = Some ''postgresql'' \<and>
   ''postgresql'' \<notin> SqliteDsn_allowed_schemes \<and>
   validate_connection_string (\<lambda>s. CHR ''$'' \<in> set s) ''postgresql://${DB_USER}@localhost/db''
     = Inr (ConfigStr ''postgresql://${DB_USER}@localhost/db'')"
  by (simp add: parse_url_def validate_connection_string_def SqliteDsn_allowed_schemes_def)

text \<open>
  Claim C3, amended. \<open>SqliteDsn\<close> accepts a connection string only if its scheme is one
  of the four SQLite variants; a connection string whose scheme is outside that set (or
  that has no scheme) is rejected by \<open>SqliteDsn\<close>, and by the validation of the field
  \<open>connection_string\<close> unless \<open>ConfigStr\<close> accepts it.
\<close>

theorem connection_string_scheme_restricted:
  assumes "url_scheme (parse_url s) \<notin> Some ` SqliteDsn_allowed_schemes"
  shows "isl (SqliteDsn_validate s) \<and>
         (config_str_ok s \<or> isl (validate_connection_string config_str_ok s)) \<and>
         SqliteDsn_allowed_schemes
           = {''sqlite'', ''sqlite+pysqlite'', ''sqlite+aiosqlite'', ''sqlite+pysqlcipher''}"
proof -
  have no: "SqliteDsn_validate s \<noteq> Inr u" for u
    using assms by (simp add: SqliteDsn_validate_accepts_iff)
  then have rejected: "isl (SqliteDsn_validate s)"
    by (cases "SqliteDsn_validate s") auto
  then have "config_str_ok s \<or> isl (validate_connection_string config_str_ok s)"
    by (cases "SqliteDsn_validate s") (auto simp: validate_connection_string_def)
  with rejected show ?thesis
    by (simp add: SqliteDsn_allowed_schemes_def)
qed

theorem connection_string_scheme_restricted_witness:
  "url_scheme (parse_url ''postgresql://localhost/db'') \<notin> Some ` SqliteDsn_allowed_schemes \<and>
   isl (SqliteDsn_validate ''postgresql://localhost/db'') \<and>
   isl (validate_connection_string (\<lambda>s. CHR ''$'' \<in> set s) ''postgresql://localhost/db'')"
proof -
  have outside:
    "url_scheme (parse_url ''postgresql://localhost/db'') \<notin> Some ` SqliteDsn_allowed_schemes"
    by (simp add: parse_url_def SqliteDsn_allowed_schemes_def image_iff)
  from connection_string_scheme_restricted
      [OF outside, where config_str_ok = "\<lambda>s. CHR ''$'' \<in> set s"]
  show ?thesis using outside by simp
qed

text \<open>
  Claim C10. \<open>SqliteDsn\<close> does not require a host: a connection string with a scheme
  of the allowed set and an empty host, such as \<open>sqlite:///path/to/file.db\<close>, is
  accepted by \<open>SqliteDsn\<close> and so by the validation of \<open>connection_string\<close>; the
  same class attributes with \<open>host_required\<close> set would refuse it.
\<close>

theorem connection_string_without_host_accepted:
  assumes "url_scheme (parse_url s) = Some sch"
      and "sch \<in> SqliteDsn_allowed_schemes"
      and "url_host (parse_url s) = None"
  shows "SqliteDsn_host_required = False \<and>
         SqliteDsn_validate s = Inr (parse_url s) \<and>
         validate_connection_string config_str_ok s
           = Inr (if config_str_ok s then ConfigStr s else SqliteDsn (parse_url s)) \<and>
         AnyUrl_validate SqliteDsn_allowed_schemes True s = Inl UrlHostError"
  using assms
  by (auto simp: SqliteDsn_validate_def AnyUrl_validate_def SqliteDsn_host_required_def
                 validate_connection_string_def Let_def)

theorem connection_string_without_host_accepted_witness:
  "url_scheme (parse_url ''sqlite:///path/to/file.db'') = Some ''sqlite'' \<and>
   ''sqlite'' \<in> SqliteDsn_allowed_schemes \<and>
   url_host (parse_url ''sqlite:///path/to/file.db'') = None \<and>
   validate_connection_string (\<lambda>s. CHR ''$'' \<in> set s) ''sqlite:///path/to/file.db''
     = Inr (SqliteDsn \<lparr>url_scheme = Some ''sqlite'', url_host = None,
                       url_rest = ''/path/to/file.db''\<rparr>)"
proof -
  have parts:
    "parse_url ''sqlite:///path/to/file.db''
       = \<lparr>url_scheme = Some ''sqlite'', url_host = None, url_rest = ''/path/to/file.db''\<rparr>"
    by (simp add: parse_url_def)
  have sch: "url_scheme (parse_url ''sqlite:///path/to/file.db'') = Some ''sqlite''"
    and host: "url_host (parse_url ''sqlite:///path/to/file.db'') = None"
    by (simp_all add: parts)
  have allowed: "''sqlite'' \<in> SqliteDsn_allowed_schemes"
    by (simp add: SqliteDsn_allowed_schemes_def)
  from connection_string_without_host_accepted
      [OF sch allowed host, where config_str_ok = "\<lambda>s. CHR ''$'' \<in> set s"]
  show ?thesis using sch allowed host parts by simp
qed

section \<open>Properties of the assets and the datasource\<close>

text \<open>
  Claim C4. For every SqliteDatasource, with SQLAlchemy installed, whenever
  \<open>_create_engine\<close> reaches the call of \<open>sa.create_engine\<close> the \<open>poolclass\<close>
  argument is \<open>StaticPool\<close>, the class-level \<open>_poolclass\<close>, and the URL argument is the
  \<open>connection_string\<close> entry of the dictionary with the config substitutions applied;
  the engine returned is the one that call returns.
\<close>

theorem create_engine_poolclass_static:
  assumes "create_engine_arguments True model_dict_of check_config self = Inr call"
  shows "ce_poolclass call = Some StaticPool \<and>
         ce_poolclass call = SqliteDatasource_poolclass True \<and>
         (\<exists>model_dict. model_dict_of self = Inr model_dict \<and>
                       model_dict ''connection_string'' = Some (ce_url call)) \<and>
         create_engine True model_dict_of check_config sa_create_engine self
           = sa_create_engine call"
proof -
  from assms obtain model_dict where md: "model_dict_of self = Inr model_dict"
    by (cases "model_dict_of self") (auto simp: create_engine_arguments_def)
  from assms md have url: "model_dict ''connection_string'' = Some (ce_url call)"
    by (auto simp: create_engine_arguments_def
             split: option.splits pyval.splits if_splits)
  from assms md have pool: "ce_poolclass call = SqliteDatasource_poolclass True"
    by (auto simp: create_engine_arguments_def
             split: option.splits pyval.splits if_splits)
  have run: "create_engine True model_dict_of check_config sa_create_engine self
               = sa_create_engine call"
    using assms by (simp add: create_engine_def)
  from md url pool run show ?thesis
    by (simp add: SqliteDatasource_poolclass_def)
qed

theorem create_engine_poolclass_static_witness:
  "create_engine_arguments True
       (\<lambda>ds. Inr [''connection_string'' \<mapsto> PyStr ''sqlite:///path/to/file.db'',
                   ''kwargs'' \<mapsto> PyDict [(''echo'', PyBool True)]])
       (\<lambda>ds model_dict. None)
       \<lparr>ds_name = ''my_sqlite'',
        ds_connection_string = SqliteDsn \<lparr>url_scheme = Some ''sqlite'', url_host = None,
                                          url_rest = ''/path/to/file.db''\<rparr>,
        ds_create_temp_table = False, ds_assets = []\<rparr>
     = Inr \<lparr>ce_url = PyStr ''sqlite:///path/to/file.db'', ce_poolclass = Some StaticPool,
            ce_kwargs = [(''echo'', PyBool True)]\<rparr> \<and>
   ce_poolclass \<lparr>ce_url = PyStr ''sqlite:///path/to/file.db'', ce_poolclass = Some StaticPool,
            ce_kwargs = [(''echo'', PyBool True)]\<rparr> = Some StaticPool"
proof -
  have reached:
    "create_engine_arguments True
         (\<lambda>ds. Inr [''connection_string'' \<mapsto> PyStr ''sqlite:///path/to/file.db'',
                     ''kwargs'' \<mapsto> PyDict [(''echo'', PyBool True)]])
         (\<lambda>ds model_dict. None)
         \<lparr>ds_name = ''my_sqlite'',
          ds_connection_string = SqliteDsn \<lparr>url_scheme = Some ''sqlite'', url_host = None,
                                            url_rest = ''/path/to/file.db''\<rparr>,
          ds_create_temp_table = False, ds_assets = []\<rparr>
       = Inr \<lparr>ce_url = PyStr ''sqlite:///path/to/file.db'', ce_poolclass = Some StaticPool,
              ce_kwargs = [(''echo'', PyBool True)]\<rparr>"
    by (simp add: create_engine_arguments_def SqliteDatasource_poolclass_def)
  from create_engine_poolclass_static [OF reached]
  show ?thesis using reached by simp
qed

text \<open>
  Claim C5. After the construction of a SqliteTableAsset or of a SqliteQueryAsset the
  partitioner implementation map binds \<open>PartitionerConvertedDatetime\<close> to
  \<open>SqlitePartitionerConvertedDateTime\<close>, and every other entry (and the rest of the
  state) is as the constructor of the generic SQL asset left it.
\<close>

theorem sqlite_asset_swaps_one_partitioner:
  assumes "cls = SqliteTableAsset \<or> cls = SqliteQueryAsset"
      and "instantiate super_init cls kwargs = Inr (c, a)"
  shows "c = cls \<and>
         (\<exists>base. super_init (if cls = SqliteTableAsset then SqliteTableAsset_type
                              else SqliteQueryAsset_type) kwargs = Inr base \<and>
            partitioner_implementation_map a PartitionerConvertedDatetime
              = Some SqlitePartitionerConvertedDateTime \<and>
            (\<forall>k. k \<noteq> PartitionerConvertedDatetime \<longrightarrow>
                 partitioner_implementation_map a k = partitioner_implementation_map base k) \<and>
            asset_fields a = asset_fields base)"
  using assms
  by (auto simp: instantiate_def SqliteTableAsset_init_def SqliteQueryAsset_init_def
           split: sum.splits)

theorem sqlite_asset_swaps_one_partitioner_witness:
  "(case instantiate
           (\<lambda>lit kw. Inr \<lparr>asset_fields = kw(''type'' \<mapsto> PyStr lit),
                           partitioner_implementation_map =
                             [OtherPartitioner ''PartitionerYear''
                                \<mapsto> OtherSqlPartitioner ''SqlPartitionerYear'']\<rparr>)
           SqliteTableAsset [''name'' \<mapsto> PyStr ''trips''] of
      Inl e \<Rightarrow> False
    | Inr (c, a) \<Rightarrow>
        c = SqliteTableAsset \<and>
        partitioner_implementation_map a PartitionerConvertedDatetime
          = Some SqlitePartitionerConvertedDateTime \<and>
        partitioner_implementation_map a (OtherPartitioner ''PartitionerYear'')
          = Some (OtherSqlPartitioner ''SqlPartitionerYear'') \<and>
        asset_fields a ''type'' = Some (PyStr ''table'')) \<and>
   (case instantiate
           (\<lambda>lit kw. Inr \<lparr>asset_fields = kw(''type'' \<mapsto> PyStr lit),
                           partitioner_implementation_map =
                             [OtherPartitioner ''PartitionerYear''
                                \<mapsto> OtherSqlPartitioner ''SqlPartitionerYear'']\<rparr>)
           SqliteQueryAsset [''name'' \<mapsto> PyStr ''recent'',
                             ''query'' \<mapsto> PyStr ''select * from trips''] of
      Inl e \<Rightarrow> False
    | Inr (c, a) \<Rightarrow>
        c = SqliteQueryAsset \<and>
        partitioner_implementation_map a PartitionerConvertedDatetime
          = Some SqlitePartitionerConvertedDateTime \<and>
        partitioner_implementation_map a (OtherPartitioner ''PartitionerYear'')
          = Some (OtherSqlPartitioner ''SqlPartitionerYear'') \<and>
        asset_fields a ''type'' = Some (PyStr ''query''))"
proof -
  let ?sup = "\<lambda>lit kw. Inr \<lparr>asset_fields = kw(''type'' \<mapsto> PyStr lit),
                           partitioner_implementation_map =
                             [OtherPartitioner ''PartitionerYear''
                                \<mapsto> OtherSqlPartitioner ''SqlPartitionerYear'']\<rparr>"
  let ?year = "OtherPartitioner ''PartitionerYear''"
  obtain c a where table:
    "instantiate ?sup SqliteTableAsset [''name'' \<mapsto> PyStr ''trips''] = Inr (c, a)"
    by (simp add: instantiate_def SqliteTableAsset_init_def)
  have table_cls: "SqliteTableAsset = SqliteTableAsset \<or> SqliteTableAsset = SqliteQueryAsset"
    by simp
  from sqlite_asset_swaps_one_partitioner [OF table_cls table]
  have table_half:
    "c = SqliteTableAsset \<and>
     partitioner_implementation_map a PartitionerConvertedDatetime
       = Some SqlitePartitionerConvertedDateTime \<and>
     partitioner_implementation_map a ?year = Some (OtherSqlPartitioner ''SqlPartitionerYear'') \<and>
     asset_fields a ''type'' = Some (PyStr ''table'')"
    by (auto simp: SqliteTableAsset_type_def)
  obtain d b where query:
    "instantiate ?sup SqliteQueryAsset
       [''name'' \<mapsto> PyStr ''recent'', ''query'' \<mapsto> PyStr ''select * from trips'']
     = Inr (d, b)"
    by (simp add: instantiate_def SqliteQueryAsset_init_def)
  have query_cls: "SqliteQueryAsset = SqliteTableAsset \<or> SqliteQueryAsset = SqliteQueryAsset"
    by simp
  from sqlite_asset_swaps_one_partitioner [OF query_cls query]
  have query_half:
    "d = SqliteQueryAsset \<and>
     partitioner_implementation_map b PartitionerConvertedDatetime
       = Some SqlitePartitionerConvertedDateTime \<and>
     partitioner_implementation_map b ?year = Some (OtherSqlPartitioner ''SqlPartitionerYear'') \<and>
     asset_fields b ''type'' = Some (PyStr ''query'')"
    by (auto simp: SqliteQueryAsset_type_def)
  from table_half query_half show ?thesis
    by (simp add: table query)
qed

text \<open>
  Claim C6. For every SqliteDatasource, an \<open>add_table_asset\<close> that returns normally
  returns a SqliteTableAsset, and an \<open>add_query_asset\<close> that returns normally returns a
  SqliteQueryAsset.
\<close>

theorem add_asset_returns_sqlite_asset:
  "(\<forall>asset ds'. add_table_asset super_init self name table_name schema_name order_by
                    batch_metadata = Inr (asset, ds') \<longrightarrow>
                  fst asset = SqliteTableAsset \<and> SqliteTableAsset \<in> set SqliteDatasource_asset_types) \<and>
   (\<forall>asset ds'. add_query_asset super_init self name query order_by batch_metadata
                    = Inr (asset, ds') \<longrightarrow>
                  fst asset = SqliteQueryAsset \<and> SqliteQueryAsset \<in> set SqliteDatasource_asset_types)"
  by (auto simp: add_table_asset_def add_query_asset_def typing_cast_def
                 SQLDatasource_add_table_asset_def SQLDatasource_add_query_asset_def
                 SqliteDatasource_TableAsset_def SqliteDatasource_QueryAsset_def
                 SqliteDatasource_asset_types_def instantiate_def
           split: sum.splits)

theorem add_asset_returns_sqlite_asset_witness:
  "(case add_table_asset
           (\<lambda>lit kw. Inr \<lparr>asset_fields = kw(''type'' \<mapsto> PyStr lit),
                           partitioner_implementation_map = Map.empty\<rparr>)
           \<lparr>ds_name = ''my_sqlite'',
            ds_connection_string = ConfigStr ''${SQLITE_URL}'',
            ds_create_temp_table = False, ds_assets = []\<rparr>
           ''trips'' ''yellow_tripdata'' None None None of
      Inl e \<Rightarrow> False
    | Inr (asset, ds') \<Rightarrow> fst asset = SqliteTableAsset \<and> ds_assets ds' = [asset]) \<and>
   (case add_query_asset
           (\<lambda>lit kw. Inr \<lparr>asset_fields = kw(''type'' \<mapsto> PyStr lit),
                           partitioner_implementation_map = Map.empty\<rparr>)
           \<lparr>ds_name = ''my_sqlite'',
            ds_connection_string = ConfigStr ''${SQLITE_URL}'',
            ds_create_temp_table = False, ds_assets = []\<rparr>
           ''recent'' ''select * from yellow_tripdata'' None None of
      Inl e \<Rightarrow> False
    | Inr (asset, ds') \<Rightarrow> fst asset = SqliteQueryAsset \<and> ds_assets ds' = [asset])"
proof -
  let ?sup = "\<lambda>lit kw. Inr \<lparr>asset_fields = kw(''type'' \<mapsto> PyStr lit),
                           partitioner_implementation_map = Map.empty\<rparr>"
  let ?ds = "\<lparr>ds_name = ''my_sqlite'', ds_connection_string = ConfigStr ''${SQLITE_URL}'',
              ds_create_temp_table = False, ds_assets = []\<rparr>"
  obtain t ds1 where table:
    "add_table_asset ?sup ?ds ''trips'' ''yellow_tripdata'' None None None = Inr (t, ds1)"
    and assets1: "ds_assets ds1 = [t]"
    by (simp add: add_table_asset_def typing_cast_def SQLDatasource_add_table_asset_def
                  instantiate_def SqliteDatasource_TableAsset_def SqliteTableAsset_init_def)
  obtain q ds2 where query:
    "add_query_asset ?sup ?ds ''recent'' ''select * from yellow_tripdata'' None None
       = Inr (q, ds2)"
    and assets2: "ds_assets ds2 = [q]"
    by (simp add: add_query_asset_def typing_cast_def SQLDatasource_add_query_asset_def
                  instantiate_def SqliteDatasource_QueryAsset_def SqliteQueryAsset_init_def)
  from add_asset_returns_sqlite_asset
      [where super_init = ?sup and self = ?ds and name = "''trips''"
         and table_name = "''yellow_tripdata''" and schema_name = None
         and order_by = None and batch_metadata = None]
    table
  have "fst t = SqliteTableAsset" by blast
  moreover
  from add_asset_returns_sqlite_asset
      [where super_init = ?sup and self = ?ds and name = "''recent''"
         and query = "''select * from yellow_tripdata''"
         and order_by = None and batch_metadata = None]
    query
  have "fst q = SqliteQueryAsset" by blast
  ultimately show ?thesis
    using table query assets1 assets2 by simp
qed

section \<open>Properties of the contract test\<close>

text \<open>
  Claim C7. The contract test describes exactly one exchange: the one ContractInteraction
  has the method PUT and the response status 200, and its response body is a \<open>data\<close>
  object like one with an \<open>id\<close> in UUID format; the one run of the test hands
  \<open>run_pact_test\<close> the path of the segments \<open>/\<close>, \<open>organizations\<close>, the organization
  id, \<open>datasources\<close> and the UUID drawn in that run.
\<close>

theorem contract_test_one_put_exchange:
  "(\<exists>ci. contract_interaction_params = [ci] \<and>
         http_method ci = ''PUT'' \<and>
         response_status ci = 200 \<and>
         response_body ci = PactDict [(''data'', Like (PactDict [(''id'', FormatUuid)]))] \<and>
         test_datasource_runs run_pact_test existing_organization_id uuid4
           = [run_pact_test
                (Path [''/'', ''organizations'', existing_organization_id, ''datasources'',
                       uuid4 0])
                ci])"
  by (simp add: contract_interaction_params_def DATASOURCE_MIN_RESPONSE_BODY_def
                test_datasource_runs_def test_datasource_def)

end
